theory Spec2Isabelle
  imports Complex_Main "HOL-Library.Log_Nat"
begin

section \<open>Numbers\<close>

text \<open>
  Every JavaScript number is an IEEE-754 binary64 value. The finite ones are rationals;
  \<open>to_double\<close> rounds a rational to the nearest binary64 value, ties to the even
  significand, for magnitudes in the normal range (the quotients and products of
  \<^verbatim>\<open>server.js\<close> lie between \<open>2 ^ -53\<close> and \<open>2 ^ 53\<close>, far from overflow and
  from the subnormal numbers, so the exponent range is left out).
  \<open>binary_exponent q\<close> is the \<open>e\<close> with \<open>2 ^ e \<le> q < 2 ^ (e + 1)\<close>; the significand
  of a binary64 value has 53 bits, so the unit in the last place is \<open>2 ^ (e - 52)\<close>.
\<close>

definition round_half_even :: "rat \<Rightarrow> int" where
  "round_half_even q =
     (let f = \<lfloor>q\<rfloor>; r = q - of_int f
      in if r < 1 / 2 then f else if 1 / 2 < r then f + 1 else if even f then f else f + 1)"

definition binary_exponent :: "rat \<Rightarrow> int" where
  "binary_exponent q =
     (let (a, b) = quotient_of q; t = bitlen a - bitlen b
      in if power_int 2 t \<le> q then t else t - 1)"

definition to_double :: "rat \<Rightarrow> rat" where
  "to_double q =
     (if q = 0 then 0
      else let u = power_int 2 (binary_exponent \<bar>q\<bar> - 52)
           in sgn q * of_int (round_half_even (\<bar>q\<bar> / u)) * u)"

text \<open>The operators \<^verbatim>\<open>/\<close> and \<^verbatim>\<open>*\<close> round their exact result once.\<close>

definition js_div :: "rat \<Rightarrow> rat \<Rightarrow> rat" where
  "js_div x y = to_double (x / y)"

definition js_mul :: "rat \<Rightarrow> rat \<Rightarrow> rat" where
  "js_mul x y = to_double (x * y)"

text \<open>
  \<^verbatim>\<open>Math.round\<close> returns the integer closest to its argument, the larger one at a
  tie; \<^verbatim>\<open>Math.floor\<close> the greatest integer below it. Both are exact.
\<close>

definition Math_round :: "rat \<Rightarrow> int" where
  "Math_round x = \<lfloor>x + 1 / 2\<rfloor>"

definition Math_floor :: "rat \<Rightarrow> int" where
  "Math_floor x = \<lfloor>x\<rfloor>"

text \<open>A number that may be \<^verbatim>\<open>NaN\<close>: what \<^verbatim>\<open>cos_sim\<close> returns, and the score.\<close>

datatype number = NaN | Num rat

section \<open>Strings\<close>

text \<open>
  Strings are lists of code units below 256 (the Latin-1 block). Decimal rendering of
  integers is what a template literal does with an integral number.
\<close>

fun string_of_nat :: "nat \<Rightarrow> string" where
  "string_of_nat n =
     (if n < 10 then [char_of (48 + n)]
      else string_of_nat (n div 10) @ [char_of (48 + n mod 10)])"

definition string_of_int :: "int \<Rightarrow> string" where
  "string_of_int k = (if k < 0 then CHR ''-'' # string_of_nat (nat (- k)) else string_of_nat (nat k))"

text \<open>Rendering of the integral numbers and of \<^verbatim>\<open>NaN\<close> that reach a template literal.\<close>

fun number_to_string :: "number \<Rightarrow> string" where
  "number_to_string NaN = ''NaN''"
| "number_to_string (Num q) = string_of_int \<lfloor>q\<rfloor>"

definition newline :: string where
  "newline = [CHR 0x0A]"

definition lower_char :: "char \<Rightarrow> char" where
  "lower_char c =
     (let n = (of_char c :: nat)
      in if (65 \<le> n \<and> n \<le> 90) \<or> (192 \<le> n \<and> n \<le> 222 \<and> n \<noteq> 215) then char_of (n + 32) else c)"

definition toLowerCase :: "string \<Rightarrow> string" where
  "toLowerCase s = map lower_char s"

text \<open>The class \<^verbatim>\<open>\w\<close>: ASCII letters, digits and the underscore.\<close>

definition is_word_char :: "char \<Rightarrow> bool" where
  "is_word_char c =
     (let n = (of_char c :: nat)
      in (48 \<le> n \<and> n \<le> 57) \<or> (65 \<le> n \<and> n \<le> 90) \<or> n = 95 \<or> (97 \<le> n \<and> n \<le> 122))"

text \<open>
  \<^verbatim>\<open>s.match(/\b\w+\b/g)\<close>: the global match scans from the left; at the first word
  character of a run the leading \<^verbatim>\<open>\b\<close> holds, the greedy \<^verbatim>\<open>\w+\<close> takes the whole
  run, where the closing \<^verbatim>\<open>\b\<close> holds, and the scan resumes behind the run. The matches
  are the maximal runs of word characters, in order. No match gives \<^verbatim>\<open>null\<close>, which
  \<^verbatim>\<open>|| []\<close> turns into the empty array.
\<close>

function match_words :: "string \<Rightarrow> string list" where
  "match_words [] = []"
| "match_words (c # cs) =
     (if is_word_char c
      then takeWhile is_word_char (c # cs) # match_words (dropWhile is_word_char cs)
      else match_words cs)"
  by pat_completeness auto
termination
  by (relation "measure length") (simp_all add: length_dropWhile_le le_imp_less_Suc)

text \<open>\<^verbatim>\<open>trim\<close> removes white space and line terminators at both ends.\<close>

definition is_space :: "char \<Rightarrow> bool" where
  "is_space c = ((of_char c :: nat) \<in> {9, 10, 11, 12, 13, 32, 160})"

definition js_trim :: "string \<Rightarrow> string" where
  "js_trim s = rev (dropWhile is_space (rev (dropWhile is_space s)))"

text \<open>
  \<^verbatim>\<open>s.match(/{[\s\S]*?}/)\<close>: the leftmost match starts at the first opening brace and
  the lazy body stops at the first closing brace behind it; when no closing brace
  follows the first opening brace, none follows a later one either.
\<close>

definition match_braces :: "string \<Rightarrow> string option" where
  "match_braces s =
     (case dropWhile (\<lambda>c. c \<noteq> CHR ''{'') s of
        [] \<Rightarrow> None
      | b # rest \<Rightarrow>
          if CHR ''}'' \<in> set rest
          then Some (b # takeWhile (\<lambda>c. c \<noteq> CHR ''}'') rest @ [CHR ''}''])
          else None)"

section \<open>Values, errors and the module scope\<close>

datatype json =
    JNull
  | JBool bool
  | JNum rat
  | JStr string
  | JArr "json list"
  | JObj "(string \<times> json) list"

text \<open>
  What a \<^verbatim>\<open>throw\<close> or a rejected promise carries. Only an error of the HTTP client
  has a \<^verbatim>\<open>response\<close>, and only when the server answered: then it holds the status.
\<close>

datatype js_error =
    AxiosError "nat option"
  | Error string
  | TypeError
  | SyntaxError
  | ReferenceError

fun response_status :: "js_error \<Rightarrow> nat option" where
  "response_status (AxiosError s) = s"
| "response_status _ = None"

text \<open>Truthiness of a value; a missing property (\<^verbatim>\<open>undefined\<close>) is \<open>None\<close>.\<close>

fun truthy :: "json \<Rightarrow> bool" where
  "truthy JNull = False"
| "truthy (JBool b) = b"
| "truthy (JNum x) = (x \<noteq> 0)"
| "truthy (JStr s) = (s \<noteq> [])"
| "truthy (JArr _) = True"
| "truthy (JObj _) = True"

text \<open>\<^verbatim>\<open>v || d\<close> for a possibly missing \<open>v\<close>.\<close>

fun or_else :: "json option \<Rightarrow> json \<Rightarrow> json" where
  "or_else None d = d"
| "or_else (Some v) d = (if truthy v then v else d)"

text \<open>
  Reading a property that is no built-in of strings, numbers or arrays: \<^verbatim>\<open>null.p\<close>
  throws, an object gives the member or \<^verbatim>\<open>undefined\<close>, any other value
  \<^verbatim>\<open>undefined\<close>.
\<close>

fun get_prop :: "json \<Rightarrow> string \<Rightarrow> js_error + json option" where
  "get_prop JNull p = Inl TypeError"
| "get_prop (JObj kvs) p = Inr (map_of kvs p)"
| "get_prop _ p = Inr None"

text \<open>
  The identifiers a function of the module can see, with what the array- and map-valued
  ones hold. \<^verbatim>\<open>recentQuestions\<close> is the only history the module declares.
\<close>

datatype binding = ArrayB "json list" | MapB "(string \<times> json list) list" | OtherB

type_synonym scope = "string \<rightharpoonup> binding"

definition module_scope :: scope where
  "module_scope = map_of
     [(''recentQuestions'', MapB []),
      (''express'', OtherB), (''mongoose'', OtherB), (''cors'', OtherB), (''axios'', OtherB),
      (''pipeline'', OtherB), (''cos_sim'', OtherB),
      (''app'', OtherB), (''PORT'', OtherB),
      (''HF_MODEL_REPO_ID'', OtherB), (''HF_API_URL'', OtherB), (''HF_API_KEY'', OtherB),
      (''EmbeddingPipeline'', OtherB),
      (''generateQuestion'', OtherB), (''evaluateAnswer'', OtherB), (''fallbackEvaluation'', OtherB)]"

section \<open>Question generation\<close>

record question_result =
  question :: json
  ideal_answer :: json

datatype http_outcome = Resolved json | Rejected js_error

text \<open>
  What a call of \<^verbatim>\<open>generateQuestion\<close> reads from outside: the two random draws
  (already floored), the remote service as a function of the prompt (\<open>Resolved\<close> holds
  \<^verbatim>\<open>response.data\<close>), \<^verbatim>\<open>JSON.parse\<close> (\<open>None\<close> is its \<^verbatim>\<open>SyntaxError\<close>) and the
  clock in milliseconds.
\<close>

record gen_env =
  random_seed :: nat
  random_variation :: nat
  axios_post :: "string \<Rightarrow> http_outcome"
  JSON_parse :: "string \<Rightarrow> json option"
  Date_now :: nat

definition variations :: "string list" where
  "variations = [''Create'', ''Generate'', ''Provide'', ''Design'', ''Formulate'']"

definition prompt :: "gen_env \<Rightarrow> string \<Rightarrow> string \<Rightarrow> string option \<Rightarrow> string" where
  \<open>prompt env topic subTopic difficulty =
     (let randomSeed = random_seed env;
          randomVariation =
            (if random_variation env < length variations then variations ! random_variation env
             else ''undefined'')
      in ''<start_of_turn>user'' @ newline @ randomVariation @ '' a unique ''
         @ (case difficulty of None \<Rightarrow> ''undefined'' | Some d \<Rightarrow> d)
         @ '' level interview question about '' @ subTopic @ '' in '' @ topic
         @ ''. Make it different from common questions. Return your response in valid JSON format with exactly two fields: "question" and "ideal_answer". Question ID: ''
         @ string_of_nat randomSeed @ ''<end_of_turn>'' @ newline
         @ ''<start_of_turn>model'' @ newline)\<close>

text \<open>Lines 117 to 124: the generated text of either response shape.\<close>

definition text_data :: "json \<Rightarrow> js_error + json" where
  "text_data data =
     (case data of
        JArr xs \<Rightarrow>
          (case xs of
             [] \<Rightarrow> Inr (JStr [])
           | JNull # _ \<Rightarrow> Inr (JStr [])
           | x # _ \<Rightarrow>
               (case get_prop x ''generated_text'' of
                  Inl e \<Rightarrow> Inl e
                | Inr v \<Rightarrow> Inr (or_else v (JStr []))))
      | _ \<Rightarrow>
          (case get_prop data ''generated_text'' of
             Inl e \<Rightarrow> Inl e
           | Inr None \<Rightarrow> Inl (Error ''Unexpected response format from Hugging Face'')
           | Inr (Some v) \<Rightarrow>
               if truthy v then Inr v
               else Inl (Error ''Unexpected response format from Hugging Face'')))"

text \<open>
  Lines 126 to 146. A value that is no string has no \<^verbatim>\<open>match\<close> method to call,
  which is a \<^verbatim>\<open>TypeError\<close>.
\<close>

definition parse_result :: "gen_env \<Rightarrow> string \<Rightarrow> string \<Rightarrow> json \<Rightarrow> js_error + question_result" where
  "parse_result env topic subTopic textData =
     (case textData of
        JStr s \<Rightarrow>
          (case match_braces s of
             Some m \<Rightarrow>
               (case JSON_parse env m of
                  None \<Rightarrow> Inl SyntaxError
                | Some parsed \<Rightarrow>
                    (case get_prop parsed ''question'' of
                       Inl e \<Rightarrow> Inl e
                     | Inr q \<Rightarrow>
                         (case get_prop parsed ''ideal_answer'' of
                            Inl e \<Rightarrow> Inl e
                          | Inr a \<Rightarrow>
                              Inr \<lparr>question = or_else q (JStr ''Could not parse question''),
                                   ideal_answer = or_else a (JStr ''N/A'')\<rparr>)))
           | None \<Rightarrow>
               Inr \<lparr>question =
                      JStr (if js_trim s \<noteq> [] then js_trim s
                            else ''What are the key concepts of '' @ subTopic @ '' in '' @ topic @ ''?''),
                    ideal_answer =
                      JStr ''Please provide a comprehensive answer covering the main concepts.''\<rparr>)
      | _ \<Rightarrow> Inl TypeError)"

text \<open>
  Lines 148 to 152. The identifier \<^verbatim>\<open>previousQuestions\<close> is looked up in the scope:
  unbound, the reference throws; bound to an array, the question is pushed and the
  oldest entry shifted out beyond five; bound to anything else, \<^verbatim>\<open>push\<close> is no
  function.
\<close>

definition store_question :: "scope \<Rightarrow> json \<Rightarrow> js_error + scope" where
  "store_question sc q =
     (case sc ''previousQuestions'' of
        None \<Rightarrow> Inl ReferenceError
      | Some (ArrayB xs) \<Rightarrow>
          (let ys = xs @ [q]
           in Inr (sc(''previousQuestions'' \<mapsto> ArrayB (if length ys > 5 then tl ys else ys))))
      | Some _ \<Rightarrow> Inl TypeError)"

definition try_block ::
  "gen_env \<Rightarrow> scope \<Rightarrow> string \<Rightarrow> string \<Rightarrow> string option \<Rightarrow> js_error + question_result \<times> scope" where
  "try_block env sc topic subTopic difficulty =
     (case axios_post env (prompt env topic subTopic difficulty) of
        Rejected e \<Rightarrow> Inl e
      | Resolved data \<Rightarrow>
          (case text_data data of
             Inl e \<Rightarrow> Inl e
           | Inr textData \<Rightarrow>
               (case parse_result env topic subTopic textData of
                  Inl e \<Rightarrow> Inl e
                | Inr result \<Rightarrow>
                    (case store_question sc (question result) of
                       Inl e \<Rightarrow> Inl e
                     | Inr sc' \<Rightarrow> Inr (result, sc')))))"

definition model_loading :: question_result where
  "model_loading =
     \<lparr>question = JStr ''The AI model is currently loading. Please try again in a moment.'',
      ideal_answer = JStr ''N/A''\<rparr>"

definition fallbackQuestions :: "string \<Rightarrow> string \<Rightarrow> question_result list" where
  "fallbackQuestions topic subTopic =
     [\<lparr>question = JStr (''Explain the concept of '' @ subTopic @ '' in '' @ topic
                         @ '' and its practical applications.''),
       ideal_answer = JStr (subTopic @ '' is an important concept in '' @ topic
                         @ ''. It involves understanding the core principles and being able to apply them in real-world scenarios.'')\<rparr>,
      \<lparr>question = JStr (''What are the main advantages and disadvantages of using '' @ subTopic
                         @ '' in '' @ topic @ ''?''),
       ideal_answer = JStr (''When considering '' @ subTopic
                         @ '', it's important to weigh both benefits and drawbacks in the context of ''
                         @ topic @ ''.'')\<rparr>,
      \<lparr>question = JStr (''Can you describe a real-world scenario where '' @ subTopic
                         @ '' would be particularly useful in '' @ topic @ ''?''),
       ideal_answer = JStr (subTopic @ '' can be applied in various scenarios within '' @ topic
                         @ '', particularly when specific requirements need to be met.'')\<rparr>,
      \<lparr>question = JStr (''How does '' @ subTopic @ '' compare to alternative approaches in ''
                         @ topic @ ''?''),
       ideal_answer = JStr (''Understanding the trade-offs between '' @ subTopic
                         @ '' and other approaches is crucial for making informed decisions in ''
                         @ topic @ ''.'')\<rparr>,
      \<lparr>question = JStr (''What are common mistakes developers make when implementing '' @ subTopic
                         @ '' in '' @ topic @ ''?''),
       ideal_answer = JStr (''Being aware of common pitfalls helps in implementing '' @ subTopic
                         @ '' correctly in '' @ topic @ '' projects.'')\<rparr>]"

text \<open>Lines 155 to 198: the handler of every error of the block above.\<close>

definition randomIndex :: "gen_env \<Rightarrow> nat" where
  "randomIndex env = nat (Math_floor (js_div (of_nat (Date_now env)) 1000)) mod 5"

definition catch_block :: "gen_env \<Rightarrow> string \<Rightarrow> string \<Rightarrow> js_error \<Rightarrow> question_result" where
  "catch_block env topic subTopic error =
     (if response_status error = Some 503 then model_loading
      else fallbackQuestions topic subTopic ! randomIndex env)"

definition generateQuestion ::
  "gen_env \<Rightarrow> scope \<Rightarrow> string \<Rightarrow> string \<Rightarrow> string option \<Rightarrow> question_result \<times> scope" where
  "generateQuestion env sc topic subTopic difficulty =
     (case try_block env sc topic subTopic difficulty of
        Inr (result, sc') \<Rightarrow> (result, sc')
      | Inl error \<Rightarrow> (catch_block env topic subTopic error, sc))"

section \<open>The embedding pipeline\<close>

text \<open>
  The loaded model is a function from a text to its embedding (the \<^verbatim>\<open>data\<close> of the
  tensor) or to the error it throws. The static fields of \<^verbatim>\<open>EmbeddingPipeline\<close> are
  the state; \<open>loads\<close> is a ghost counter of the calls of \<^verbatim>\<open>pipeline(task, model)\<close>.
\<close>

type_synonym vec = "rat list"

type_synonym extractor = "string \<Rightarrow> js_error + vec"

record pipeline_state =
  instance' :: "extractor option"
  loading :: bool
  loadError :: "js_error option"
  loads :: nat

definition initial_state :: pipeline_state where
  "initial_state = \<lparr>instance' = None, loading = False, loadError = None, loads = 0\<rparr>"

text \<open>
  \<^verbatim>\<open>getInstance\<close> suspends once, at \<^verbatim>\<open>await pipeline(...)\<close>. \<open>begin_load\<close> is the code
  before the suspension, \<open>finish_load\<close> the code after it, given how the load ended.
  A call that runs while another one is suspended finds \<open>loading\<close> set.
\<close>

definition begin_load :: "pipeline_state \<Rightarrow> pipeline_state" where
  "begin_load st = st\<lparr>loading := True, loads := loads st + 1\<rparr>"

definition finish_load :: "js_error + extractor \<Rightarrow> pipeline_state \<Rightarrow> pipeline_state" where
  "finish_load outcome st =
     (case outcome of
        Inr h \<Rightarrow> st\<lparr>instance' := Some h, loadError := None\<rparr>
      | Inl error \<Rightarrow> st\<lparr>loadError := Some error, instance' := None\<rparr>)
     \<lparr>loading := False\<rparr>"

definition getInstance ::
  "js_error + extractor \<Rightarrow> pipeline_state \<Rightarrow> extractor option \<times> pipeline_state" where
  "getInstance outcome st =
     (if instance' st = None \<and> \<not> loading st
      then (let st' = finish_load outcome (begin_load st) in (instance' st', st'))
      else (instance' st, st))"

section \<open>Answer evaluation\<close>

record evaluation =
  feedback :: string
  score :: number

definition could_not_evaluate :: evaluation where
  "could_not_evaluate = \<lparr>feedback = ''Could not evaluate answer.'', score = Num 0\<rparr>"

text \<open>
  Lines 254 to 278. The three locals \<^verbatim>\<open>userWords\<close>, \<^verbatim>\<open>idealWords\<close> and \<^verbatim>\<open>matches\<close> as
  functions of the arguments.
\<close>

definition userWords :: "string \<Rightarrow> string set" where
  "userWords userAnswer = set (match_words (toLowerCase userAnswer))"

definition idealWords :: "string \<Rightarrow> string list" where
  "idealWords idealAnswer = match_words (toLowerCase idealAnswer)"

definition matches :: "string \<Rightarrow> string \<Rightarrow> nat" where
  "matches userAnswer idealAnswer =
     length (filter (\<lambda>word. word \<in> userWords userAnswer) (idealWords idealAnswer))"

definition fallbackEvaluation :: "string \<Rightarrow> string \<Rightarrow> evaluation" where
  "fallbackEvaluation userAnswer idealAnswer =
     (if length (idealWords idealAnswer) = 0 then could_not_evaluate
      else
        let score = Math_round (js_mul (js_div (of_nat (matches userAnswer idealAnswer))
                                               (of_nat (length (idealWords idealAnswer)))) 100);
            feedback = ''**Estimated Score: '' @ string_of_int score
                       @ ''%** (Using fallback evaluation)'' @ newline @ newline
        in \<lparr>feedback = feedback @
               (if score > 70 then ''Good! Your answer covers many key concepts.''
                else if score > 40
                then ''You're on the right track, but could expand more on key concepts.''
                else ''Your answer needs more detail. Review the ideal answer for key points.''),
            score = Num (of_int score)\<rparr>)"

text \<open>
  The score as the specification words it, \<open>round(100 * matches / total)\<close>, in exact
  arithmetic.
\<close>

definition spec_score :: "nat \<Rightarrow> nat \<Rightarrow> int" where
  "spec_score m n = \<lfloor>100 * of_nat m / of_nat n + (1 / 2 :: rat)\<rfloor>"

text \<open>
  Lines 226 to 246, from the similarity on. A comparison with \<^verbatim>\<open>NaN\<close> is false, and
  the literals \<^verbatim>\<open>0.8\<close>, \<^verbatim>\<open>0.6\<close> and \<^verbatim>\<open>0.4\<close> are the binary64 values nearest to them.
\<close>

fun greater :: "number \<Rightarrow> rat \<Rightarrow> bool" where
  "greater NaN y = False"
| "greater (Num x) y = (y < x)"

fun scorePercent :: "number \<Rightarrow> number" where
  "scorePercent NaN = NaN"
| "scorePercent (Num s) = Num (of_int (Math_round (js_mul s 100)))"

definition similarity_feedback :: "number \<Rightarrow> evaluation" where
  "similarity_feedback s =
     \<lparr>feedback = ''**Similarity Score: '' @ number_to_string (scorePercent s) @ ''%**''
                  @ newline @ newline @
        (if greater s (to_double (8 / 10))
         then ''Excellent! Your answer is very comprehensive and closely matches the key points.''
         else if greater s (to_double (6 / 10))
         then ''Good job! You have the right idea, but you might be missing a few key details.''
         else if greater s (to_double (4 / 10))
         then ''You're on the right track, but your answer is quite different. Try to be more specific.''
         else ''Your answer seems to be missing the main points. Let's review the ideal answer.''),
      score = scorePercent s\<rparr>"

text \<open>
  What a call of \<^verbatim>\<open>evaluateAnswer\<close> reads from outside: how a load of the model ends
  if the call starts one, and the library's \<^verbatim>\<open>cos_sim\<close>.
\<close>

record eval_env =
  pipeline :: "js_error + extractor"
  cos_sim :: "vec \<Rightarrow> vec \<Rightarrow> js_error + number"

text \<open>Lines 215 to 250: the block with the handle in hand.\<close>

definition embedding_evaluation :: "eval_env \<Rightarrow> extractor \<Rightarrow> string \<Rightarrow> string \<Rightarrow> evaluation" where
  "embedding_evaluation env extractor userAnswer idealAnswer =
     (case extractor userAnswer of
        Inl error \<Rightarrow> fallbackEvaluation userAnswer idealAnswer
      | Inr userEmbedding \<Rightarrow>
          (case extractor idealAnswer of
             Inl error \<Rightarrow> fallbackEvaluation userAnswer idealAnswer
           | Inr idealEmbedding \<Rightarrow>
               (case cos_sim env userEmbedding idealEmbedding of
                  Inl error \<Rightarrow> fallbackEvaluation userAnswer idealAnswer
                | Inr s \<Rightarrow> similarity_feedback s)))"

text \<open>
  Lines 201 to 251. An argument is a string or missing (\<open>None\<close>); the missing and the
  empty string are the falsy ones.
\<close>

fun evaluateAnswer ::
  "eval_env \<Rightarrow> pipeline_state \<Rightarrow> string option \<Rightarrow> string option \<Rightarrow> evaluation \<times> pipeline_state" where
  "evaluateAnswer env st (Some userAnswer) (Some idealAnswer) =
     (if userAnswer = [] \<or> idealAnswer = [] \<or> idealAnswer = ''N/A'' then (could_not_evaluate, st)
      else
        (case getInstance (pipeline env) st of
           (None, st') \<Rightarrow> (fallbackEvaluation userAnswer idealAnswer, st')
         | (Some extractor, st') \<Rightarrow>
             (embedding_evaluation env extractor userAnswer idealAnswer, st')))"
| "evaluateAnswer env st _ _ = (could_not_evaluate, st)"

section \<open>Sample inputs\<close>

definition sample_parse :: "string \<Rightarrow> json option" where
  \<open>sample_parse s =
     (if s = ''{"question": "What is a B-tree?", "ideal_answer": "A balanced search tree."}''
      then Some (JObj [(''question'', JStr ''What is a B-tree?''),
                       (''ideal_answer'', JStr ''A balanced search tree.'')])
      else None)\<close>

definition sample_env :: "http_outcome \<Rightarrow> nat \<Rightarrow> gen_env" where
  "sample_env outcome now =
     \<lparr>random_seed = 4711, random_variation = 2, axios_post = (\<lambda>prompt. outcome),
      JSON_parse = sample_parse, Date_now = now\<rparr>"

definition raw_text :: string where
  "raw_text = ''Sure! Here's a question: What is a hash table?''"

definition raw_response :: json where
  "raw_response = JArr [JObj [(''generated_text'', JStr raw_text)]]"

definition json_response :: json where
  \<open>json_response = JObj [(''generated_text'',
     JStr ''Here you go: {"question": "What is a B-tree?", "ideal_answer": "A balanced search tree."} Good luck!'')]\<close>

definition sample_extractor :: extractor where
  "sample_extractor text = Inr (if text = ''yes'' then [1, 0] else [- 1, 0])"

text \<open>
  The library's \<^verbatim>\<open>cos_sim\<close> on vectors of norm one, which the extractor returns under
  \<^verbatim>\<open>normalize: true\<close>: the denominator is one and the similarity is the dot product.
\<close>

definition unit_cos_sim :: "vec \<Rightarrow> vec \<Rightarrow> js_error + number" where
  "unit_cos_sim a b = Inr (Num (sum_list (map2 (*) a b)))"

definition loaded_env :: eval_env where
  "loaded_env = \<lparr>pipeline = Inr sample_extractor, cos_sim = unit_cos_sim\<rparr>"

definition failing_env :: eval_env where
  "failing_env = \<lparr>pipeline = Inl (Error ''model not found''), cos_sim = unit_cos_sim\<rparr>"

definition failed_state :: pipeline_state where
  "failed_state =
     \<lparr>instance' = None, loading = False, loadError = Some (Error ''model not found''), loads = 1\<rparr>"

definition forty_words :: string where
  "forty_words = concat (replicate 23 ''tree '') @ concat (replicate 17 ''heap '')"

section \<open>Rounding lemmas\<close>

lemma round_half_even_error: "\<bar>of_int (round_half_even q) - q\<bar> \<le> 1 / 2"
proof -
  have "of_int \<lfloor>q\<rfloor> \<le> q" "q < of_int \<lfloor>q\<rfloor> + 1"
    by linarith+
  then show ?thesis
    unfolding round_half_even_def Let_def by (auto simp: abs_le_iff)
qed

lemma round_half_even_of_int: "round_half_even (of_int k) = k"
  by (simp add: round_half_even_def)

lemma binary_exponent_lower:
  assumes "0 < q"
  shows "power_int 2 (binary_exponent q) \<le> q"
proof -
  obtain a b where ab: "quotient_of q = (a, b)"
    by (cases "quotient_of q")
  then have b: "0 < b" and q: "q = of_int a / of_int b"
    using quotient_of_denom_pos quotient_of_div by blast+
  with assms have a: "0 < a"
    by (simp add: zero_less_divide_iff)
  define t where "t = bitlen a - bitlen b"
  show ?thesis
  proof (cases "power_int 2 t \<le> q")
    case True
    then show ?thesis
      by (simp add: binary_exponent_def ab t_def)
  next
    case False
    then have e: "binary_exponent q = t - 1"
      by (simp add: binary_exponent_def ab t_def)
    have la: "(2::int) ^ nat (bitlen a - 1) \<le> a" and lb: "b < 2 ^ nat (bitlen b)"
      using bitlen_bounds [OF a] bitlen_bounds [OF b] by simp_all
    have pa: "1 \<le> bitlen a" and pb: "0 \<le> bitlen b"
      using a bitlen_nonneg [of b] by (simp_all add: bitlen_alt_def)
    have "t - 1 = (bitlen a - 1) - bitlen b"
      by (simp add: t_def)
    then have "power_int (2::rat) (t - 1) = power_int 2 ((bitlen a - 1) - bitlen b)"
      by (rule arg_cong)
    also have "\<dots> = power_int 2 (bitlen a - 1) / power_int 2 (bitlen b)"
      by (rule power_int_diff) simp
    finally have "power_int (2::rat) (t - 1) = power_int 2 (bitlen a - 1) / power_int 2 (bitlen b)" .
    also have "\<dots> = of_int (2 ^ nat (bitlen a - 1)) / of_int (2 ^ nat (bitlen b))"
      using pa pb by (simp add: power_int_def)
    also have "\<dots> \<le> of_int a / of_int b"
      using la lb b a by (intro frac_le) simp_all
    finally show ?thesis
      using e q by simp
  qed
qed

lemma to_double_error:
  "\<bar>to_double q - q\<bar> \<le> \<bar>q\<bar> / 2 ^ 53"
proof (cases "q = 0")
  case True
  then show ?thesis by (simp add: to_double_def)
next
  case False
  define u :: rat where "u = power_int 2 (binary_exponent \<bar>q\<bar> - 52)"
  define M where "M = round_half_even (\<bar>q\<bar> / u)"
  have u: "0 < u" by (simp add: u_def)
  have td: "to_double q = sgn q * of_int M * u"
    using False by (simp add: to_double_def u_def M_def Let_def)
  have "q = sgn q * \<bar>q\<bar>"
    by (simp add: sgn_mult_abs)
  then have "to_double q - q = sgn q * (of_int M * u) - sgn q * \<bar>q\<bar>"
    by (simp add: td mult.assoc)
  then have "to_double q - q = sgn q * (of_int M * u - \<bar>q\<bar>)"
    by (simp only: right_diff_distrib)
  then have "\<bar>to_double q - q\<bar> = \<bar>of_int M * u - \<bar>q\<bar>\<bar>"
    using False by (simp add: abs_mult abs_sgn_eq)
  also have "of_int M * u - \<bar>q\<bar> = (of_int M - \<bar>q\<bar> / u) * u"
    using u by (simp add: field_simps)
  also have "\<bar>\<dots>\<bar> = \<bar>of_int M - \<bar>q\<bar> / u\<bar> * u"
    using u by (simp add: abs_mult)
  also have "\<dots> \<le> 1 / 2 * u"
    using round_half_even_error [of "\<bar>q\<bar> / u"] u unfolding M_def
    by (intro mult_right_mono) simp_all
  also have "u = power_int 2 (binary_exponent \<bar>q\<bar>) / 2 ^ 52"
    by (simp add: u_def power_int_diff)
  also have "1 / 2 * (power_int 2 (binary_exponent \<bar>q\<bar>) / 2 ^ 52) \<le> 1 / 2 * (\<bar>q\<bar> / 2 ^ 52)"
    using binary_exponent_lower [of "\<bar>q\<bar>"] False
    by (intro mult_left_mono divide_right_mono) simp_all
  finally show ?thesis by simp
qed

lemma to_double_of_int:
  assumes "0 \<le> k" "k < 2 ^ 53"
  shows "to_double (of_int k) = of_int k"
proof (cases "k = 0")
  case True
  then show ?thesis by (simp add: to_double_def)
next
  case False
  with assms have k: "0 < k" by simp
  define e where "e = binary_exponent (of_int k)"
  have "power_int (2::rat) e \<le> of_int k"
    using binary_exponent_lower [of "of_int k"] k by (simp add: e_def)
  also have "(of_int k :: rat) < power_int 2 53"
  proof -
    have "(of_int k :: rat) < of_int (2 ^ 53)"
      using assms(2) by (simp only: of_int_less_iff)
    then show ?thesis by simp
  qed
  finally have lt: "power_int (2::rat) e < power_int 2 53" .
  have "e < 53"
  proof (rule ccontr)
    assume "\<not> e < 53"
    then have "power_int (2::rat) 53 \<le> power_int 2 e"
      by (intro power_int_increasing) simp_all
    with lt show False by simp
  qed
  define n where "n = nat (52 - e)"
  have n: "e - 52 = - int n"
    using \<open>e < 53\<close> by (simp add: n_def)
  have u: "power_int (2::rat) (e - 52) = 1 / 2 ^ n"
    by (simp add: n power_int_minus field_simps)
  have "\<bar>of_int k :: rat\<bar> / (1 / 2 ^ n) = of_int (k * 2 ^ n)"
    using k by simp
  then have "round_half_even (\<bar>of_int k\<bar> / (1 / 2 ^ n)) = k * 2 ^ n"
    by (simp only: round_half_even_of_int)
  then have "to_double (of_int k) = sgn (of_int k) * of_int (k * 2 ^ n) * (1 / 2 ^ n)"
    using k by (simp add: to_double_def e_def [symmetric] u Let_def)
  then show ?thesis
    using k by simp
qed


lemma to_double_of_nat:
  assumes "n < 2 ^ 53"
  shows "to_double (of_nat n) = of_nat n"
proof -
  have "int n < 2 ^ 53"
    using assms by (metis of_nat_less_numeral_power_cancel_iff)
  then show ?thesis
    using to_double_of_int [of "int n"] by simp
qed

lemma floor_seconds:
  assumes "now < 2 ^ 53"
  shows "Math_floor (js_div (of_nat now) 1000) = int (now div 1000)"
proof -
  define k where "k = now div 1000"
  define r where "r = now mod 1000"
  define q :: rat where "q = of_nat now / 1000"
  have "now = 1000 * k + r"
    by (simp add: k_def r_def)
  then have "(of_nat now :: rat) = 1000 * of_nat k + of_nat r"
    by (metis of_nat_add of_nat_mult of_nat_numeral)
  then have q: "q = of_int (int k) + of_nat r / 1000"
    by (simp add: q_def field_simps)
  have r: "r < 1000"
    by (simp add: r_def)
  have k: "k < 2 ^ 53"
  proof -
    have "k \<le> now" by (simp add: k_def)
    with assms show ?thesis by linarith
  qed
  have "\<lfloor>to_double q\<rfloor> = int k"
  proof (cases "r = 0")
    case True
    then have "to_double q = of_int (int k)"
      using k by (simp add: q to_double_of_nat)
    then show ?thesis by simp
  next
    case False
    then have "1 \<le> (of_nat r :: rat)" "(of_nat r :: rat) \<le> 999"
      using r by simp_all
    then have lo: "of_int (int k) + 1 / 1000 \<le> q" and hi: "q \<le> of_int (int k) + 999 / 1000"
      by (simp_all add: q)
    have "(of_nat now :: rat) < 2 ^ 53"
      using assms by (metis of_nat_less_numeral_power_cancel_iff)
    then have "q < 2 ^ 53 / 1000"
      unfolding q_def by (simp add: divide_strict_right_mono)
    moreover have "0 \<le> q"
      by (simp add: q_def)
    ultimately have "\<bar>to_double q - q\<bar> < 1 / 1000"
      using to_double_error [of q] by (simp add: field_simps)
    with lo hi have "of_int (int k) \<le> to_double q" "to_double q < of_int (int k) + 1"
      by linarith+
    then show ?thesis
      by (simp add: floor_unique)
  qed
  then show ?thesis
    by (simp add: Math_floor_def js_div_def q_def k_def)
qed


lemma percent_error:
  assumes "m \<le> n" "0 < n"
  shows "\<bar>js_mul (js_div (of_nat m) (of_nat n)) 100 - 100 * of_nat m / of_nat n\<bar> \<le> 201 / 2 ^ 53"
proof -
  define y :: rat where "y = of_nat m / of_nat n"
  define x where "x = to_double y"
  have y: "0 \<le> y" "y \<le> 1"
    using assms by (simp_all add: y_def)
  have e1: "\<bar>x - y\<bar> \<le> 1 / 2 ^ 53"
  proof -
    have "\<bar>x - y\<bar> \<le> \<bar>y\<bar> / 2 ^ 53"
      unfolding x_def by (rule to_double_error)
    also have "\<dots> \<le> 1 / 2 ^ 53"
      using y by (intro divide_right_mono) simp_all
    finally show ?thesis .
  qed
  have p: "(2::rat) ^ 53 = 9007199254740992"
    by simp
  have x: "\<bar>x * 100\<bar> \<le> 101"
    using e1 y unfolding p by linarith
  have "\<bar>to_double (x * 100) - x * 100\<bar> \<le> \<bar>x * 100\<bar> / 2 ^ 53"
    by (rule to_double_error)
  also have "\<dots> \<le> 101 / 2 ^ 53"
    using x by (intro divide_right_mono) simp_all
  finally have e2: "\<bar>to_double (x * 100) - x * 100\<bar> \<le> 101 / 2 ^ 53" .
  have "\<bar>to_double (x * 100) - 100 * y\<bar> \<le> 201 / 2 ^ 53"
    using e1 e2 unfolding p by linarith
  then show ?thesis
    by (simp add: js_mul_def js_div_def x_def y_def)
qed

lemma percent_range:
  assumes "m \<le> n" "0 < n"
  shows "0 \<le> Math_round (js_mul (js_div (of_nat m) (of_nat n)) 100)"
    and "Math_round (js_mul (js_div (of_nat m) (of_nat n)) 100) \<le> 100"
proof -
  define y :: rat where "y = 100 * of_nat m / of_nat n"
  define x where "x = js_mul (js_div (of_nat m) (of_nat n)) 100"
  have "0 \<le> y" "y \<le> 100"
    using assms by (simp_all add: y_def field_simps)
  moreover have "\<bar>x - y\<bar> \<le> 201 / 2 ^ 53"
    unfolding x_def y_def using assms by (rule percent_error)
  moreover have p: "(2::rat) ^ 53 = 9007199254740992"
    by simp
  ultimately have "0 \<le> x + 1 / 2" "x + 1 / 2 < 101"
    unfolding p by linarith+
  then show "0 \<le> Math_round (js_mul (js_div (of_nat m) (of_nat n)) 100)"
    and "Math_round (js_mul (js_div (of_nat m) (of_nat n)) 100) \<le> 100"
    by (simp_all add: Math_round_def x_def [symmetric] floor_le_iff)
qed

lemma percent_near:
  fixes y :: rat
  assumes "m \<le> n" "0 < n" "n < 2 ^ 44"
  defines "y \<equiv> 100 * of_nat m / of_nat n"
  shows "frac y \<noteq> 1 / 2 \<Longrightarrow> Math_round (js_mul (js_div (of_nat m) (of_nat n)) 100) = \<lfloor>y + 1 / 2\<rfloor>"
    and "Math_round (js_mul (js_div (of_nat m) (of_nat n)) 100) \<in> {\<lfloor>y + 1 / 2\<rfloor> - 1, \<lfloor>y + 1 / 2\<rfloor>}"
proof -
  define x where "x = js_mul (js_div (of_nat m) (of_nat n)) 100"
  define k where "k = \<lfloor>y + 1 / 2\<rfloor>"
  define d where "d = 200 * int m + int n - 2 * int n * k"
  have p: "(2::rat) ^ 53 = 9007199254740992"
    by simp
  have err: "\<bar>x - y\<bar> \<le> 201 / 2 ^ 53"
    unfolding x_def y_def using assms(1,2) by (rule percent_error)
  have k: "of_int k \<le> y + 1 / 2" "y + 1 / 2 < of_int k + 1"
    unfolding k_def by linarith+
  have n: "(0::rat) < of_nat n"
    using assms(2) by simp
  have d: "of_int d = (y + 1 / 2 - of_int k) * (2 * of_nat n)"
    using n by (simp add: d_def y_def field_simps)
  have "(of_nat n :: rat) < 2 ^ 44"
    using assms(3) by (metis of_nat_less_numeral_power_cancel_iff)
  then have small: "201 / 2 ^ 53 < 1 / (2 * of_nat n :: rat)"
    using n by (simp add: field_simps)
  define \<delta> :: rat where "\<delta> = 1 / (2 * of_nat n)"
  have eps: "201 / 9007199254740992 < \<delta>"
    using small by (simp add: \<delta>_def)
  have err': "\<bar>x - y\<bar> \<le> 201 / 9007199254740992"
    using err by simp
  have yk: "y + 1 / 2 - of_int k = of_int d * \<delta>"
    using n by (simp add: d \<delta>_def)
  have "of_int d < (1::rat) * (2 * of_nat n)"
    unfolding d using k n by (intro mult_strict_right_mono) simp_all
  then have "of_int d < (of_int (2 * int n) :: rat)"
    by simp
  then have "d < 2 * int n"
    by (simp only: of_int_less_iff)
  then have "d \<le> 2 * int n - 1"
    by simp
  then have "(of_int d :: rat) \<le> of_int (2 * int n - 1)"
    by (simp only: of_int_le_iff)
  then have "of_int d * \<delta> \<le> of_int (2 * int n - 1) * \<delta>"
    using n by (intro mult_right_mono) (simp_all add: \<delta>_def)
  also have "\<dots> = 1 - \<delta>"
    using n by (simp add: \<delta>_def field_simps)
  finally have hi: "y + 1 / 2 \<le> of_int k + 1 - \<delta>"
    using yk by linarith
  have up: "x + 1 / 2 < of_int k + 1"
    using hi err' eps by linarith
  have "of_int k - 1 \<le> x + 1 / 2"
    using k(1) err' by linarith
  then have "of_int (k - 1) \<le> x + 1 / 2"
    by simp
  then have "k - 1 \<le> \<lfloor>x + 1 / 2\<rfloor>" and "\<lfloor>x + 1 / 2\<rfloor> \<le> k"
    using up by (simp_all only: le_floor_iff floor_le_iff)
  then have tie: "Math_round x \<in> {k - 1, k}"
    by (auto simp: Math_round_def)
  show "Math_round (js_mul (js_div (of_nat m) (of_nat n)) 100) \<in> {\<lfloor>y + 1 / 2\<rfloor> - 1, \<lfloor>y + 1 / 2\<rfloor>}"
    using tie by (simp add: x_def k_def)
  assume nt: "frac y \<noteq> 1 / 2"
  have "of_int k \<noteq> y + 1 / 2"
  proof
    assume "of_int k = y + 1 / 2"
    then have "y - 1 / 2 = of_int (k - 1)"
      by simp
    then have "y - 1 / 2 \<in> \<int>"
      by (simp only: Ints_of_int)
    then have "frac y = 1 / 2"
      using frac_unique_iff [of y "1 / 2"] by simp
    with nt show False ..
  qed
  with k(1) have "0 < of_int d * \<delta>"
    using yk by linarith
  moreover have "0 < \<delta>"
    using n by (simp add: \<delta>_def)
  ultimately have "0 < (of_int d :: rat)"
    by (rule zero_less_mult_pos2)
  then have "1 \<le> d"
    by simp
  then have "(of_int 1 :: rat) \<le> of_int d"
    by (simp only: of_int_le_iff)
  then have "of_int 1 * \<delta> \<le> of_int d * \<delta>"
    using n by (intro mult_right_mono) (simp_all add: \<delta>_def)
  then have lo: "of_int k + \<delta> \<le> y + 1 / 2"
    using yk by simp
  have "of_int k \<le> x + 1 / 2"
    using lo err' eps by linarith
  then have "\<lfloor>x + 1 / 2\<rfloor> = k"
    using up by (simp add: floor_unique)
  then show "Math_round (js_mul (js_div (of_nat m) (of_nat n)) 100) = \<lfloor>y + 1 / 2\<rfloor>"
    by (simp add: Math_round_def x_def k_def)
qed

text \<open>
  The rounded value is a signed 53-bit significand (\<open>2 ^ 53\<close> when the rounding carries)
  times the unit in the last place, within half a unit of the argument.
\<close>

lemma binary_exponent_upper:
  assumes "0 < q"
  shows "q < power_int 2 (binary_exponent q + 1)"
proof -
  obtain a b where ab: "quotient_of q = (a, b)"
    by (cases "quotient_of q")
  then have b: "0 < b" and q: "q = of_int a / of_int b"
    using quotient_of_denom_pos quotient_of_div by blast+
  with assms have a: "0 < a"
    by (simp add: zero_less_divide_iff)
  define t where "t = bitlen a - bitlen b"
  show ?thesis
  proof (cases "power_int 2 t \<le> q")
    case False
    then show ?thesis
      by (simp add: binary_exponent_def ab t_def)
  next
    case True
    then have e: "binary_exponent q = t"
      by (simp add: binary_exponent_def ab t_def)
    have la: "a < 2 ^ nat (bitlen a)" and lb: "(2::int) ^ nat (bitlen b - 1) \<le> b"
      using bitlen_bounds [OF a] bitlen_bounds [OF b] by simp_all
    have pa: "0 \<le> bitlen a" and pb: "1 \<le> bitlen b"
      using b bitlen_nonneg [of a] by (simp_all add: bitlen_alt_def)
    have "of_int a / of_int b < (of_int (2 ^ nat (bitlen a)) :: rat) / of_int (2 ^ nat (bitlen b - 1))"
      using la lb b a by (intro frac_less) simp_all
    also have "\<dots> = power_int 2 (bitlen a) / power_int 2 (bitlen b - 1)"
      using pa pb by (simp add: power_int_def)
    also have "\<dots> = power_int 2 (bitlen a - (bitlen b - 1))"
      by (rule power_int_diff [symmetric]) simp
    also have "bitlen a - (bitlen b - 1) = t + 1"
      by (simp add: t_def)
    finally show ?thesis
      using e q by simp
  qed
qed

lemma to_double_significand:
  assumes "q \<noteq> 0"
  defines "m \<equiv> round_half_even (\<bar>q\<bar> / power_int 2 (binary_exponent \<bar>q\<bar> - 52))"
  shows "to_double q = sgn q * of_int m * power_int 2 (binary_exponent \<bar>q\<bar> - 52)"
    and "2 ^ 52 \<le> m" and "m \<le> 2 ^ 53"
proof -
  define e where "e = binary_exponent \<bar>q\<bar>"
  define s :: rat where "s = \<bar>q\<bar> / power_int 2 (e - 52)"
  show "to_double q = sgn q * of_int m * power_int 2 (binary_exponent \<bar>q\<bar> - 52)"
    using assms(1) by (simp add: to_double_def m_def Let_def)
  have q: "0 < \<bar>q\<bar>"
    using assms(1) by simp
  have "power_int 2 e \<le> \<bar>q\<bar>" "\<bar>q\<bar> < power_int 2 (e + 1)"
    unfolding e_def using binary_exponent_lower [OF q] binary_exponent_upper [OF q] by simp_all
  moreover have "power_int (2::rat) e = 2 ^ 52 * power_int 2 (e - 52)"
    "power_int (2::rat) (e + 1) = 2 ^ 53 * power_int 2 (e - 52)"
    by (simp_all add: power_int_diff power_int_add)
  ultimately have s: "2 ^ 52 \<le> s" "s < 2 ^ 53"
    by (simp_all add: s_def pos_le_divide_eq pos_divide_less_eq)
  have "of_int (2 ^ 52) \<le> s" "s \<le> of_int (2 ^ 53)"
    using s by simp_all
  then have "2 ^ 52 \<le> \<lfloor>s\<rfloor>" "\<lfloor>s\<rfloor> < 2 ^ 53"
    using s by (simp_all add: le_floor_iff floor_less_iff)
  then have "2 ^ 52 \<le> round_half_even s" "round_half_even s \<le> 2 ^ 53"
    by (auto simp: round_half_even_def Let_def)
  then show "2 ^ 52 \<le> m" "m \<le> 2 ^ 53"
    by (simp_all add: m_def s_def e_def)
qed

text \<open>
  Two values of the model against the arithmetic of the language: the literal \<^verbatim>\<open>0.1\<close>,
  and \<^verbatim>\<open>(23 / 40) * 100\<close>, which prints as \<^verbatim>\<open>57.49999999999999\<close>.
\<close>

lemma to_double_one_tenth: "to_double (1 / 10) = 3602879701896397 / 36028797018963968"
  by code_simp

lemma js_percent_23_of_40:
  "js_mul (js_div 23 40) 100 = 8092405580431359 / 140737488355328"
  by code_simp

section \<open>Question generation: lemmas and claims\<close>

lemma module_scope_previousQuestions: "module_scope ''previousQuestions'' = None"
  by (simp add: module_scope_def)

lemma store_question_unbound:
  "sc ''previousQuestions'' = None \<Longrightarrow> store_question sc q = Inl ReferenceError"
  by (simp add: store_question_def)

lemma text_data_status: "text_data data = Inl e \<Longrightarrow> response_status e = None"
  by (auto simp: text_data_def split: json.splits list.splits sum.splits option.splits if_splits
      elim!: get_prop.elims)

lemma parse_result_status:
  "parse_result env topic subTopic textData = Inl e \<Longrightarrow> response_status e = None"
  by (auto simp: parse_result_def split: json.splits sum.splits option.splits if_splits
      elim!: get_prop.elims)

lemma try_block_unbound:
  assumes "sc ''previousQuestions'' = None"
  shows "\<exists>e. try_block env sc topic subTopic difficulty = Inl e"
  using assms
  by (auto simp: try_block_def store_question_unbound split: http_outcome.splits sum.splits)

lemma try_block_resolved:
  assumes "sc ''previousQuestions'' = None"
    and "axios_post env (prompt env topic subTopic difficulty) = Resolved data"
  shows "\<exists>e. try_block env sc topic subTopic difficulty = Inl e \<and> response_status e = None"
  using assms
  by (auto simp: try_block_def store_question_unbound text_data_status parse_result_status
      split: sum.splits)

lemma randomIndex_less: "randomIndex env < 5"
  by (simp add: randomIndex_def)

lemma randomIndex_seconds:
  "Date_now env < 2 ^ 53 \<Longrightarrow> randomIndex env = Date_now env div 1000 mod 5"
  by (simp add: randomIndex_def floor_seconds)

lemma fallbackQuestions_length: "length (fallbackQuestions topic subTopic) = 5"
  by (simp add: fallbackQuestions_def)

lemma fallbackQuestions_strings:
  assumes "i < 5"
  shows "\<exists>q a. fallbackQuestions topic subTopic ! i = \<lparr>question = JStr q, ideal_answer = JStr a\<rparr>
           \<and> q \<noteq> [] \<and> a \<noteq> []"
proof -
  from assms have "i = 0 \<or> i = 1 \<or> i = 2 \<or> i = 3 \<or> i = 4"
    by linarith
  then show ?thesis
    by (elim disjE) (simp_all add: fallbackQuestions_def)
qed

lemma catch_block_strings:
  "\<exists>q a. catch_block env topic subTopic e = \<lparr>question = JStr q, ideal_answer = JStr a\<rparr>
     \<and> q \<noteq> [] \<and> a \<noteq> []"
  using fallbackQuestions_strings [OF randomIndex_less, of topic subTopic env]
  by (simp add: catch_block_def model_loading_def)

text \<open>
  Claim C1. Whatever the remote call does (resolve with any body, reject with any error),
  whatever \<^verbatim>\<open>JSON.parse\<close>, the clock and the random draws give, and for every topic,
  sub-topic and difficulty, \<^verbatim>\<open>generateQuestion\<close> returns (the model is a total
  function whose every throw is caught) a result whose \<^verbatim>\<open>question\<close> and
  \<^verbatim>\<open>ideal_answer\<close> are non-empty strings.
\<close>

theorem generateQuestion_non_empty:
  "\<exists>q a. fst (generateQuestion env module_scope topic subTopic difficulty)
            = \<lparr>question = JStr q, ideal_answer = JStr a\<rparr> \<and> q \<noteq> [] \<and> a \<noteq> []"
proof -
  obtain e where "try_block env module_scope topic subTopic difficulty = Inl e"
    using try_block_unbound [where sc = module_scope] module_scope_previousQuestions by blast
  then have "fst (generateQuestion env module_scope topic subTopic difficulty)
      = catch_block env topic subTopic e"
    by (simp add: generateQuestion_def)
  then show ?thesis
    using catch_block_strings [of env topic subTopic e] by simp
qed

lemma generateQuestion_caught:
  assumes "try_block env sc topic subTopic difficulty = Inl error" and "Date_now env < 2 ^ 53"
  shows "generateQuestion env sc topic subTopic difficulty =
     (if response_status error = Some 503 then model_loading
      else fallbackQuestions topic subTopic ! (Date_now env div 1000 mod 5), sc)"
  using assms by (simp add: generateQuestion_def catch_block_def randomIndex_seconds)

lemma generateQuestion_resolved:
  assumes "sc ''previousQuestions'' = None"
    and "axios_post env (prompt env topic subTopic difficulty) = Resolved data"
    and "Date_now env < 2 ^ 53"
  shows "generateQuestion env sc topic subTopic difficulty =
     (fallbackQuestions topic subTopic ! (Date_now env div 1000 mod 5), sc)"
proof -
  obtain e where "try_block env sc topic subTopic difficulty = Inl e" "response_status e = None"
    using try_block_resolved [where sc = sc, OF assms(1,2)] by blast
  then show ?thesis
    using generateQuestion_caught [OF _ assms(3), of sc topic subTopic difficulty e] by simp
qed

text \<open>
  Claim C5. When the \<^verbatim>\<open>try\<close> block ends in an error, the result is the fixed
  "model is currently loading" pair if the error carries the HTTP status 503, and
  otherwise the template number \<open>\<lfloor>seconds\<rfloor> mod 5\<close> of the five templates built from
  topic and sub-topic alone: a function of the current second. The clock is below
  \<open>2 ^ 53\<close> milliseconds, as every time value of the language is.
\<close>

theorem fallback_selection:
  assumes "try_block env sc topic subTopic difficulty = Inl error" and "Date_now env < 2 ^ 53"
  shows "generateQuestion env sc topic subTopic difficulty =
           (if response_status error = Some 503 then model_loading
            else fallbackQuestions topic subTopic ! (Date_now env div 1000 mod 5), sc)
         \<and> Date_now env div 1000 mod 5 < length (fallbackQuestions topic subTopic)
         \<and> length (fallbackQuestions topic subTopic) = 5"
  using generateQuestion_caught [OF assms] by (simp add: fallbackQuestions_length)

text \<open>Claim C5 at a 503 answer of the remote service and at a call without answer.\<close>

theorem fallback_selection_witness:
  "try_block (sample_env (Rejected (AxiosError (Some 503))) 1762169003000) module_scope
      ''Databases'' ''Indexing'' (Some ''medium'') = Inl (AxiosError (Some 503))
   \<and> Date_now (sample_env (Rejected (AxiosError (Some 503))) 1762169003000) < 2 ^ 53
   \<and> generateQuestion (sample_env (Rejected (AxiosError (Some 503))) 1762169003000) module_scope
      ''Databases'' ''Indexing'' (Some ''medium'') = (model_loading, module_scope)
   \<and> try_block (sample_env (Rejected (AxiosError None)) 1762169003000) module_scope
      ''Databases'' ''Indexing'' (Some ''medium'') = Inl (AxiosError None)
   \<and> generateQuestion (sample_env (Rejected (AxiosError None)) 1762169003000) module_scope
      ''Databases'' ''Indexing'' (Some ''medium'')
     = (\<lparr>question = JStr ''How does Indexing compare to alternative approaches in Databases?'',
         ideal_answer = JStr ''Understanding the trade-offs between Indexing and other approaches is crucial for making informed decisions in Databases.''\<rparr>,
        module_scope)"
proof -
  let ?env = "sample_env (Rejected (AxiosError (Some 503))) 1762169003000"
  let ?env' = "sample_env (Rejected (AxiosError None)) 1762169003000"
  have t: "try_block ?env module_scope ''Databases'' ''Indexing'' (Some ''medium'')
      = Inl (AxiosError (Some 503))"
    by (simp add: try_block_def sample_env_def)
  have n: "Date_now ?env < 2 ^ 53"
    by (simp add: sample_env_def)
  have t': "try_block ?env' module_scope ''Databases'' ''Indexing'' (Some ''medium'')
      = Inl (AxiosError None)"
    by (simp add: try_block_def sample_env_def)
  have n': "Date_now ?env' < 2 ^ 53"
    by (simp add: sample_env_def)
  have d: "Date_now ?env' div 1000 mod 5 = 3"
    by (simp add: sample_env_def)
  show ?thesis
    using t n t' fallback_selection [OF t n] fallback_selection [OF t' n']
    by (simp add: d fallbackQuestions_def)
qed

lemma module_scope_update_previousQuestions:
  "(module_scope(''recentQuestions'' := b)) ''previousQuestions'' = None"
  by (simp add: module_scope_def)

text \<open>
  Claim C10. \<^verbatim>\<open>previousQuestions\<close> is not declared in the module. For every response
  that is accepted and parsed, by the JSON path or the raw-text path, the \<^verbatim>\<open>try\<close> block
  ends in the \<^verbatim>\<open>ReferenceError\<close> of that identifier, and the call returns the template
  of the current second instead of the parsed pair. The scope is returned as it was,
  and the result is the same whatever \<^verbatim>\<open>recentQuestions\<close> holds: the declared history
  is neither written nor read.
\<close>

theorem parsed_result_unreachable:
  assumes "axios_post env (prompt env topic subTopic difficulty) = Resolved data"
    and "text_data data = Inr textData"
    and "parse_result env topic subTopic textData = Inr result"
    and "Date_now env < 2 ^ 53"
  shows "module_scope ''previousQuestions'' = None
         \<and> try_block env module_scope topic subTopic difficulty = Inl ReferenceError
         \<and> generateQuestion env module_scope topic subTopic difficulty =
             (fallbackQuestions topic subTopic ! (Date_now env div 1000 mod 5), module_scope)
         \<and> generateQuestion env (module_scope(''recentQuestions'' := b)) topic subTopic difficulty =
             (fallbackQuestions topic subTopic ! (Date_now env div 1000 mod 5),
              module_scope(''recentQuestions'' := b))"
proof -
  have "try_block env module_scope topic subTopic difficulty = Inl ReferenceError"
    using assms(1-3)
    by (simp add: try_block_def store_question_unbound module_scope_previousQuestions)
  moreover have "generateQuestion env sc topic subTopic difficulty =
      (fallbackQuestions topic subTopic ! (Date_now env div 1000 mod 5), sc)"
    if "sc ''previousQuestions'' = None" for sc
    using that assms(1,4) by (rule generateQuestion_resolved)
  ultimately show ?thesis
    using module_scope_previousQuestions module_scope_update_previousQuestions by blast
qed

text \<open>Claim C10 at a response with a JSON object in its text.\<close>

theorem parsed_result_unreachable_witness:
  \<open>axios_post (sample_env (Resolved json_response) 1762169004000)
      (prompt (sample_env (Resolved json_response) 1762169004000) ''Databases'' ''Indexing'' None)
     = Resolved json_response
   \<and> parse_result (sample_env (Resolved json_response) 1762169004000) ''Databases'' ''Indexing''
        (JStr ''Here you go: {"question": "What is a B-tree?", "ideal_answer": "A balanced search tree."} Good luck!'')
     = Inr \<lparr>question = JStr ''What is a B-tree?'', ideal_answer = JStr ''A balanced search tree.''\<rparr>
   \<and> generateQuestion (sample_env (Resolved json_response) 1762169004000) module_scope
        ''Databases'' ''Indexing'' None
     = (\<lparr>question = JStr ''What are common mistakes developers make when implementing Indexing in Databases?'',
         ideal_answer = JStr ''Being aware of common pitfalls helps in implementing Indexing correctly in Databases projects.''\<rparr>,
        module_scope)\<close>
proof -
  let ?env = "sample_env (Resolved json_response) 1762169004000"
  let ?text = \<open>JStr ''Here you go: {"question": "What is a B-tree?", "ideal_answer": "A balanced search tree."} Good luck!''\<close>
  let ?result = "\<lparr>question = JStr ''What is a B-tree?'', ideal_answer = JStr ''A balanced search tree.''\<rparr>"
  have a: "axios_post ?env (prompt ?env ''Databases'' ''Indexing'' None) = Resolved json_response"
    by (simp add: sample_env_def)
  have t: "text_data json_response = Inr ?text"
    by (simp add: text_data_def json_response_def)
  have p: "parse_result ?env ''Databases'' ''Indexing'' ?text = Inr ?result"
    by (simp add: parse_result_def match_braces_def sample_env_def sample_parse_def)
  have n: "Date_now ?env < 2 ^ 53"
    by (simp add: sample_env_def)
  have d: "Date_now ?env div 1000 mod 5 = 4"
    by (simp add: sample_env_def)
  show ?thesis
    using a p parsed_result_unreachable [OF a t p n, of "Some (MapB [])"]
    by (simp add: d fallbackQuestions_def)
qed

text \<open>
  Claim C3, evaluated at the response of the specification's example: the text has no
  braces, the raw-text branch builds the pair the claim describes, and the call
  returns the first template instead.
\<close>

theorem raw_text_question_lost:
  "parse_result (sample_env (Resolved raw_response) 1762169000000) ''Data Structures'' ''Hashing''
      (JStr raw_text)
     = Inr \<lparr>question = JStr ''Sure! Here's a question: What is a hash table?'',
            ideal_answer = JStr ''Please provide a comprehensive answer covering the main concepts.''\<rparr>
   \<and> fst (generateQuestion (sample_env (Resolved raw_response) 1762169000000) module_scope
        ''Data Structures'' ''Hashing'' (Some ''easy''))
     = \<lparr>question = JStr ''Explain the concept of Hashing in Data Structures and its practical applications.'',
        ideal_answer = JStr ''Hashing is an important concept in Data Structures. It involves understanding the core principles and being able to apply them in real-world scenarios.''\<rparr>"
proof -
  let ?env = "sample_env (Resolved raw_response) 1762169000000"
  have "parse_result ?env ''Data Structures'' ''Hashing'' (JStr raw_text)
     = Inr \<lparr>question = JStr ''Sure! Here's a question: What is a hash table?'',
            ideal_answer = JStr ''Please provide a comprehensive answer covering the main concepts.''\<rparr>"
    by (simp add: parse_result_def match_braces_def raw_text_def js_trim_def is_space_def)
  moreover have "generateQuestion ?env module_scope ''Data Structures'' ''Hashing'' (Some ''easy'')
     = (fallbackQuestions ''Data Structures'' ''Hashing'' ! (Date_now ?env div 1000 mod 5), module_scope)"
    by (rule generateQuestion_resolved [where data = raw_response])
       (simp_all add: module_scope_previousQuestions sample_env_def)
  moreover have "Date_now ?env div 1000 mod 5 = 0"
    by (simp add: sample_env_def)
  ultimately show ?thesis
    by (simp add: fallbackQuestions_def)
qed

text \<open>
  Claim C4, evaluated at the same response: after the call the scope is the module's
  scope as before, where \<^verbatim>\<open>previousQuestions\<close> is unbound and \<^verbatim>\<open>recentQuestions\<close> is
  the empty map; no history holds the question.
\<close>

theorem history_not_updated:
  "snd (generateQuestion (sample_env (Resolved raw_response) 1762169001000) module_scope
        ''Data Structures'' ''Hashing'' (Some ''easy'')) = module_scope
   \<and> module_scope ''previousQuestions'' = None
   \<and> module_scope ''recentQuestions'' = Some (MapB [])"
proof -
  let ?env = "sample_env (Resolved raw_response) 1762169001000"
  have "generateQuestion ?env module_scope ''Data Structures'' ''Hashing'' (Some ''easy'')
     = (fallbackQuestions ''Data Structures'' ''Hashing'' ! (Date_now ?env div 1000 mod 5), module_scope)"
    by (rule generateQuestion_resolved [where data = raw_response])
       (simp_all add: module_scope_previousQuestions sample_env_def)
  then show ?thesis
    by (simp add: module_scope_def)
qed

section \<open>The embedding pipeline and answer evaluation: lemmas and claims\<close>

lemma fallback_example:
  "fallbackEvaluation ''gradient descent minimizes loss''
      ''gradient descent is an optimization algorithm that minimizes loss''
     = \<lparr>feedback = ''**Estimated Score: 44%** (Using fallback evaluation)'' @ newline @ newline
          @ ''You're on the right track, but could expand more on key concepts.'',
        score = Num 44\<rparr>"
  by code_simp

subsection \<open>The singleton\<close>

text \<open>
  Claim C2, as amended. A call of \<^verbatim>\<open>getInstance\<close> that finds an instance returns it
  and loads nothing; a call during a load in flight returns the current instance and
  loads nothing; every call that finds no instance and no load in flight starts a load
  attempt, also after a failed one, and returns the handle if the attempt succeeds
  and \<^verbatim>\<open>null\<close> if it fails.
\<close>

theorem getInstance_attempts:
  "(instance' st = Some h \<longrightarrow> getInstance outcome st = (Some h, st))
   \<and> (loading st \<longrightarrow> getInstance outcome st = (instance' st, st))
   \<and> (instance' st = None \<and> \<not> loading st \<longrightarrow>
        fst (getInstance outcome st) = (case outcome of Inr h' \<Rightarrow> Some h' | Inl error \<Rightarrow> None)
        \<and> loads (snd (getInstance outcome st)) = loads st + 1
        \<and> \<not> loading (snd (getInstance outcome st)))"
  by (auto simp: getInstance_def begin_load_def finish_load_def Let_def split: sum.splits)

text \<open>Claim C2 as amended, at the state a failed load leaves behind.\<close>

theorem getInstance_attempts_witness:
  "instance' failed_state = None \<and> \<not> loading failed_state
   \<and> fst (getInstance (Inl (Error ''model not found'')) failed_state) = None
   \<and> loads (snd (getInstance (Inl (Error ''model not found'')) failed_state)) = 2
   \<and> instance' (snd (getInstance (Inr sample_extractor) failed_state)) = Some sample_extractor
   \<and> getInstance (Inl (Error ''model not found'')) (snd (getInstance (Inr sample_extractor) failed_state))
       = (Some sample_extractor, snd (getInstance (Inr sample_extractor) failed_state))
   \<and> loading (begin_load initial_state)
   \<and> getInstance (Inr sample_extractor) (begin_load initial_state) = (None, begin_load initial_state)"
proof -
  have a: "instance' failed_state = None \<and> \<not> loading failed_state"
    by (simp add: failed_state_def)
  have b: "instance' (snd (getInstance (Inr sample_extractor) failed_state)) = Some sample_extractor"
    using a getInstance_attempts [of failed_state _ "Inr sample_extractor"]
    by (simp add: getInstance_def begin_load_def finish_load_def)
  have c: "loading (begin_load initial_state)" "instance' (begin_load initial_state) = None"
    by (simp_all add: begin_load_def initial_state_def)
  show ?thesis
    using a b c getInstance_attempts [of failed_state _ "Inl (Error ''model not found'')"]
      getInstance_attempts [of "snd (getInstance (Inr sample_extractor) failed_state)"
        sample_extractor "Inl (Error ''model not found'')"]
      getInstance_attempts [of "begin_load initial_state" _ "Inr sample_extractor"]
    by (simp add: failed_state_def)
qed

text \<open>
  Claim C2 as stated fails: in the state left by a failed load (no instance, the error
  recorded, nothing in flight) the next call starts a second load and, when that one
  succeeds, returns the handle.
\<close>

theorem failed_load_is_retried:
  "instance' failed_state = None \<and> loadError failed_state = Some (Error ''model not found'')
   \<and> \<not> loading failed_state
   \<and> fst (getInstance (Inr sample_extractor) failed_state) = Some sample_extractor
   \<and> loads (snd (getInstance (Inr sample_extractor) failed_state)) = loads failed_state + 1
   \<and> snd (getInstance (Inl (Error ''model not found'')) initial_state) = failed_state"
  by (simp add: getInstance_def begin_load_def finish_load_def failed_state_def initial_state_def)

subsection \<open>Early return\<close>

text \<open>
  Claim C6. When the user's answer or the ideal answer is missing or empty, or the ideal
  answer is \<^verbatim>\<open>"N/A"\<close>, \<^verbatim>\<open>evaluateAnswer\<close> returns the fixed result with score 0 and
  leaves the state of the pipeline as it was: no load, no model.
\<close>

theorem evaluateAnswer_early_return:
  assumes "userAnswer = None \<or> userAnswer = Some [] \<or> idealAnswer = None \<or> idealAnswer = Some []
           \<or> idealAnswer = Some ''N/A''"
  shows "evaluateAnswer env st userAnswer idealAnswer =
           (\<lparr>feedback = ''Could not evaluate answer.'', score = Num 0\<rparr>, st)"
proof (cases userAnswer)
  case None
  then show ?thesis by (simp add: could_not_evaluate_def)
next
  case u: (Some u)
  show ?thesis
  proof (cases idealAnswer)
    case None
    with u show ?thesis by (simp add: could_not_evaluate_def)
  next
    case (Some i)
    with u assms show ?thesis by (auto simp: could_not_evaluate_def)
  qed
qed

text \<open>Claim C6 at the three calls of the specification and at a missing answer.\<close>

theorem evaluateAnswer_early_return_witness:
  "evaluateAnswer loaded_env initial_state (Some '''') (Some ''x'')
     = (\<lparr>feedback = ''Could not evaluate answer.'', score = Num 0\<rparr>, initial_state)
   \<and> evaluateAnswer loaded_env initial_state (Some ''x'') (Some '''')
     = (\<lparr>feedback = ''Could not evaluate answer.'', score = Num 0\<rparr>, initial_state)
   \<and> evaluateAnswer loaded_env initial_state (Some ''x'') (Some ''N/A'')
     = (\<lparr>feedback = ''Could not evaluate answer.'', score = Num 0\<rparr>, initial_state)
   \<and> evaluateAnswer loaded_env initial_state None (Some ''x'')
     = (\<lparr>feedback = ''Could not evaluate answer.'', score = Num 0\<rparr>, initial_state)"
  using evaluateAnswer_early_return [of "Some ''''" "Some ''x''" loaded_env initial_state]
    evaluateAnswer_early_return [of "Some ''x''" "Some ''''" loaded_env initial_state]
    evaluateAnswer_early_return [of "Some ''x''" "Some ''N/A''" loaded_env initial_state]
    evaluateAnswer_early_return [of None "Some ''x''" loaded_env initial_state]
  by simp

subsection \<open>Model unavailable\<close>

text \<open>
  Claim C7, as amended. For answers that pass the guard of line 202 (both non-empty, the
  ideal one not \<^verbatim>\<open>"N/A"\<close>), when \<^verbatim>\<open>getInstance\<close> returns \<^verbatim>\<open>null\<close> the result is
  exactly that of \<^verbatim>\<open>fallbackEvaluation\<close>.
\<close>

theorem evaluateAnswer_unavailable:
  assumes "userAnswer \<noteq> []" and "idealAnswer \<noteq> []" and "idealAnswer \<noteq> ''N/A''"
    and "fst (getInstance (pipeline env) st) = None"
  shows "evaluateAnswer env st (Some userAnswer) (Some idealAnswer) =
           (fallbackEvaluation userAnswer idealAnswer, snd (getInstance (pipeline env) st))"
  using assms by (cases "getInstance (pipeline env) st") simp

text \<open>Claim C7 as amended, at the example of the specification with a failing load.\<close>

theorem evaluateAnswer_unavailable_witness:
  "fst (getInstance (pipeline failing_env) initial_state) = None
   \<and> evaluateAnswer failing_env initial_state (Some ''gradient descent minimizes loss'')
        (Some ''gradient descent is an optimization algorithm that minimizes loss'')
     = (\<lparr>feedback = ''**Estimated Score: 44%** (Using fallback evaluation)'' @ newline @ newline
          @ ''You're on the right track, but could expand more on key concepts.'',
         score = Num 44\<rparr>, failed_state)"
proof -
  have g: "getInstance (pipeline failing_env) initial_state = (None, failed_state)"
    by (simp add: getInstance_def begin_load_def finish_load_def failing_env_def
        initial_state_def failed_state_def)
  then have n: "fst (getInstance (pipeline failing_env) initial_state) = None"
    by simp
  show ?thesis
    using n evaluateAnswer_unavailable [OF _ _ _ n,
        of "''gradient descent minimizes loss''"
           "''gradient descent is an optimization algorithm that minimizes loss''"]
    by (simp add: g fallback_example)
qed

text \<open>
  Claim C7 as stated fails at an empty answer: with the model unavailable,
  \<^verbatim>\<open>evaluateAnswer("", "x")\<close> returns the fixed result of the guard, while
  \<^verbatim>\<open>fallbackEvaluation("", "x")\<close> returns an estimated score of 0 with its own text.
\<close>

theorem early_return_is_not_fallback:
  "fst (getInstance (pipeline failing_env) initial_state) = None
   \<and> fst (evaluateAnswer failing_env initial_state (Some '''') (Some ''x''))
       = \<lparr>feedback = ''Could not evaluate answer.'', score = Num 0\<rparr>
   \<and> fallbackEvaluation '''' ''x''
       = \<lparr>feedback = ''**Estimated Score: 0%** (Using fallback evaluation)'' @ newline @ newline
            @ ''Your answer needs more detail. Review the ideal answer for key points.'',
          score = Num 0\<rparr>
   \<and> fst (evaluateAnswer failing_env initial_state (Some '''') (Some ''x'')) \<noteq> fallbackEvaluation '''' ''x''"
proof -
  have f: "fallbackEvaluation '''' ''x''
       = \<lparr>feedback = ''**Estimated Score: 0%** (Using fallback evaluation)'' @ newline @ newline
            @ ''Your answer needs more detail. Review the ideal answer for key points.'',
          score = Num 0\<rparr>"
    by code_simp
  have g: "fst (getInstance (pipeline failing_env) initial_state) = None"
    by (simp add: getInstance_def begin_load_def finish_load_def failing_env_def initial_state_def)
  show ?thesis
    unfolding f using g by (simp add: could_not_evaluate_def newline_def)
qed

subsection \<open>The fallback scorer\<close>

lemma matches_le: "matches userAnswer idealAnswer \<le> length (idealWords idealAnswer)"
  by (simp add: matches_def)

lemma fallbackEvaluation_score:
  "idealWords idealAnswer \<noteq> [] \<Longrightarrow>
   score (fallbackEvaluation userAnswer idealAnswer) =
     Num (of_int (Math_round (js_mul (js_div (of_nat (matches userAnswer idealAnswer))
                                             (of_nat (length (idealWords idealAnswer)))) 100)))"
  by (simp add: fallbackEvaluation_def Let_def)

text \<open>
  Claim C8, as amended. If the ideal answer has no token the result is the fixed one with
  score 0. Otherwise (for fewer than \<open>2 ^ 44\<close> tokens) the score is the specification's
  \<open>round(100 * matches / total)\<close> or the integer below it, and it is the former whenever
  \<open>100 * matches / total\<close> is not exactly half-way between two integers. The example
  of the specification scores 44 with the partial-credit text.
\<close>

theorem fallbackEvaluation_overlap:
  "(idealWords idealAnswer = [] \<longrightarrow>
      fallbackEvaluation userAnswer idealAnswer
        = \<lparr>feedback = ''Could not evaluate answer.'', score = Num 0\<rparr>)
   \<and> (idealWords idealAnswer \<noteq> [] \<and> length (idealWords idealAnswer) < 2 ^ 44 \<longrightarrow>
        score (fallbackEvaluation userAnswer idealAnswer)
          \<in> {Num (of_int (spec_score (matches userAnswer idealAnswer) (length (idealWords idealAnswer)) - 1)),
              Num (of_int (spec_score (matches userAnswer idealAnswer) (length (idealWords idealAnswer))))}
        \<and> (frac (100 * of_nat (matches userAnswer idealAnswer)
                    / of_nat (length (idealWords idealAnswer)) :: rat) \<noteq> 1 / 2 \<longrightarrow>
             score (fallbackEvaluation userAnswer idealAnswer)
               = Num (of_int (spec_score (matches userAnswer idealAnswer) (length (idealWords idealAnswer))))))
   \<and> fallbackEvaluation ''gradient descent minimizes loss''
        ''gradient descent is an optimization algorithm that minimizes loss''
       = \<lparr>feedback = ''**Estimated Score: 44%** (Using fallback evaluation)'' @ newline @ newline
            @ ''You're on the right track, but could expand more on key concepts.'',
          score = Num 44\<rparr>"
proof (intro conjI impI)
  assume "idealWords idealAnswer = []"
  then show "fallbackEvaluation userAnswer idealAnswer
        = \<lparr>feedback = ''Could not evaluate answer.'', score = Num 0\<rparr>"
    by (simp add: fallbackEvaluation_def could_not_evaluate_def)
next
  assume a: "idealWords idealAnswer \<noteq> [] \<and> length (idealWords idealAnswer) < 2 ^ 44"
  then have n: "0 < length (idealWords idealAnswer)"
    by simp
  show "score (fallbackEvaluation userAnswer idealAnswer)
          \<in> {Num (of_int (spec_score (matches userAnswer idealAnswer) (length (idealWords idealAnswer)) - 1)),
              Num (of_int (spec_score (matches userAnswer idealAnswer) (length (idealWords idealAnswer))))}"
    using percent_near(2) [OF matches_le n, of userAnswer] a
    by (auto simp: fallbackEvaluation_score spec_score_def)
next
  assume a: "idealWords idealAnswer \<noteq> [] \<and> length (idealWords idealAnswer) < 2 ^ 44"
    and f: "frac (100 * of_nat (matches userAnswer idealAnswer)
                    / of_nat (length (idealWords idealAnswer)) :: rat) \<noteq> 1 / 2"
  from a have n: "0 < length (idealWords idealAnswer)"
    by simp
  show "score (fallbackEvaluation userAnswer idealAnswer)
               = Num (of_int (spec_score (matches userAnswer idealAnswer) (length (idealWords idealAnswer))))"
    using percent_near(1) [OF matches_le n _ f] a
    by (simp add: fallbackEvaluation_score spec_score_def)
next
  show "fallbackEvaluation ''gradient descent minimizes loss''
        ''gradient descent is an optimization algorithm that minimizes loss''
       = \<lparr>feedback = ''**Estimated Score: 44%** (Using fallback evaluation)'' @ newline @ newline
            @ ''You're on the right track, but could expand more on key concepts.'',
          score = Num 44\<rparr>"
    by (rule fallback_example)
qed

text \<open>
  Claim C8 as stated fails at a tie: with 23 of 40 ideal tokens matched the quotient
  \<open>23 / 40\<close> rounds to a binary64 value whose product with 100 is below 57.5, so the
  code scores 57 where \<open>round(100 * 23 / 40)\<close> is 58.
\<close>

theorem tie_rounds_down:
  "length (idealWords forty_words) = 40 \<and> matches ''tree'' forty_words = 23
   \<and> score (fallbackEvaluation ''tree'' forty_words) = Num 57
   \<and> spec_score 23 40 = 58"
proof -
  have "length (idealWords forty_words) = 40"
    by code_simp
  moreover have "matches ''tree'' forty_words = 23"
    by code_simp
  moreover have "score (fallbackEvaluation ''tree'' forty_words) = Num 57"
    by code_simp
  moreover have "spec_score 23 40 = 58"
    by code_simp
  ultimately show ?thesis
    by (intro conjI)
qed

subsection \<open>The range of the score\<close>

lemma similarity_percent_range:
  assumes "- 1 \<le> x" "x \<le> 1"
  shows "- 100 \<le> Math_round (js_mul x 100)"
    and "Math_round (js_mul x 100) \<le> 100"
    and "0 \<le> x \<Longrightarrow> 0 \<le> Math_round (js_mul x 100)"
proof -
  define z where "z = to_double (x * 100)"
  have p: "(2::rat) ^ 53 = 9007199254740992"
    by simp
  have e: "\<bar>z - x * 100\<bar> \<le> \<bar>x * 100\<bar> / 9007199254740992"
    unfolding z_def using to_double_error [of "x * 100"] by (simp only: p)
  have "- 100 \<le> z + 1 / 2" "z + 1 / 2 < 101"
    using e assms by linarith+
  then have "- 100 \<le> \<lfloor>z + 1 / 2\<rfloor>" "\<lfloor>z + 1 / 2\<rfloor> \<le> 100"
    by (simp_all add: le_floor_iff floor_le_iff)
  then show "- 100 \<le> Math_round (js_mul x 100)" "Math_round (js_mul x 100) \<le> 100"
    by (simp_all add: Math_round_def js_mul_def z_def)
  assume "0 \<le> x"
  then have "0 \<le> z + 1 / 2"
    using e assms by linarith
  then show "0 \<le> Math_round (js_mul x 100)"
    by (simp add: Math_round_def js_mul_def z_def)
qed

lemma evaluateAnswer_paths:
  "fst (evaluateAnswer env st userAnswer idealAnswer) = could_not_evaluate
   \<or> (\<exists>u i. userAnswer = Some u \<and> idealAnswer = Some i
         \<and> fst (evaluateAnswer env st userAnswer idealAnswer) = fallbackEvaluation u i)
   \<or> (\<exists>a b s. cos_sim env a b = Inr s
         \<and> fst (evaluateAnswer env st userAnswer idealAnswer) = similarity_feedback s)"
proof (cases userAnswer)
  case None
  then show ?thesis by simp
next
  case u: (Some u)
  show ?thesis
  proof (cases idealAnswer)
    case None
    with u show ?thesis by simp
  next
    case (Some i)
    with u show ?thesis
      by (auto simp: embedding_evaluation_def split: prod.splits option.splits sum.splits)
  qed
qed

text \<open>
  Claim C9, as amended. The score of the fallback scorer is an integer from 0 to 100 and
  that of the early return is 0. On the embedding path the score is
  \<^verbatim>\<open>Math.round(s * 100)\<close> for the similarity \<open>s\<close>: for \<open>s\<close> between -1 and 1 an integer
  from -100 to 100, and non-negative when \<open>s\<close> is. Every result of \<^verbatim>\<open>evaluateAnswer\<close> is
  one of these three.
\<close>

theorem score_range:
  "(\<exists>k. score (fallbackEvaluation u i) = Num (of_int k) \<and> 0 \<le> k \<and> k \<le> 100)
   \<and> score could_not_evaluate = Num 0
   \<and> (- 1 \<le> x \<and> x \<le> 1 \<longrightarrow>
        (\<exists>k. score (similarity_feedback (Num x)) = Num (of_int k) \<and> - 100 \<le> k \<and> k \<le> 100
              \<and> (0 \<le> x \<longrightarrow> 0 \<le> k)))
   \<and> (fst (evaluateAnswer env st userAnswer idealAnswer) = could_not_evaluate
       \<or> (\<exists>u i. userAnswer = Some u \<and> idealAnswer = Some i
             \<and> fst (evaluateAnswer env st userAnswer idealAnswer) = fallbackEvaluation u i)
       \<or> (\<exists>a b s. cos_sim env a b = Inr s
             \<and> fst (evaluateAnswer env st userAnswer idealAnswer) = similarity_feedback s))"
proof (intro conjI impI)
  show "\<exists>k. score (fallbackEvaluation u i) = Num (of_int k) \<and> 0 \<le> k \<and> k \<le> 100"
  proof (cases "idealWords i = []")
    case True
    then have "score (fallbackEvaluation u i) = Num (of_int 0)"
      by (simp add: fallbackEvaluation_def could_not_evaluate_def)
    then show ?thesis by (intro exI [of _ 0]) simp
  next
    case False
    then have "0 < length (idealWords i)" by simp
    from percent_range [OF matches_le this, of u] fallbackEvaluation_score [OF False, of u]
    show ?thesis by blast
  qed
next
  show "score could_not_evaluate = Num 0"
    by (simp add: could_not_evaluate_def)
next
  assume "- 1 \<le> x \<and> x \<le> 1"
  then have "- 100 \<le> Math_round (js_mul x 100)" "Math_round (js_mul x 100) \<le> 100"
    "0 \<le> x \<longrightarrow> 0 \<le> Math_round (js_mul x 100)"
    using similarity_percent_range [of x] by simp_all
  moreover have "score (similarity_feedback (Num x)) = Num (of_int (Math_round (js_mul x 100)))"
    by (simp add: similarity_feedback_def)
  ultimately show "\<exists>k. score (similarity_feedback (Num x)) = Num (of_int k) \<and> - 100 \<le> k \<and> k \<le> 100
              \<and> (0 \<le> x \<longrightarrow> 0 \<le> k)"
    by blast
next
  show "fst (evaluateAnswer env st userAnswer idealAnswer) = could_not_evaluate
       \<or> (\<exists>u i. userAnswer = Some u \<and> idealAnswer = Some i
             \<and> fst (evaluateAnswer env st userAnswer idealAnswer) = fallbackEvaluation u i)
       \<or> (\<exists>a b s. cos_sim env a b = Inr s
             \<and> fst (evaluateAnswer env st userAnswer idealAnswer) = similarity_feedback s)"
    by (rule evaluateAnswer_paths)
qed

text \<open>
  Claim C9 as stated fails on the embedding path: for two embeddings that point in
  opposite directions the similarity is -1 and the score is -100.
\<close>

theorem negative_similarity_score:
  "sample_extractor ''yes'' = Inr [1, 0] \<and> sample_extractor ''no'' = Inr [- 1, 0]
   \<and> unit_cos_sim [1, 0] [- 1, 0] = Inr (Num (- 1))
   \<and> score (fst (evaluateAnswer loaded_env initial_state (Some ''yes'') (Some ''no''))) = Num (- 100)"
  by code_simp


text \<open>Claim C8 as amended, at the example of the specification and at a token-free ideal answer.\<close>

theorem fallbackEvaluation_overlap_witness:
  "idealWords ''gradient descent is an optimization algorithm that minimizes loss'' \<noteq> []
   \<and> length (idealWords ''gradient descent is an optimization algorithm that minimizes loss'') = 9
   \<and> matches ''gradient descent minimizes loss''
        ''gradient descent is an optimization algorithm that minimizes loss'' = 4
   \<and> frac (100 * 4 / 9 :: rat) \<noteq> 1 / 2
   \<and> spec_score 4 9 = 44
   \<and> score (fallbackEvaluation ''gradient descent minimizes loss''
        ''gradient descent is an optimization algorithm that minimizes loss'') = Num 44
   \<and> idealWords ''?!'' = []
   \<and> fallbackEvaluation ''gradient descent'' ''?!''
       = \<lparr>feedback = ''Could not evaluate answer.'', score = Num 0\<rparr>"
proof -
  let ?u = "''gradient descent minimizes loss''"
  let ?i = "''gradient descent is an optimization algorithm that minimizes loss''"
  have n: "length (idealWords ?i) = 9"
    by code_simp
  have m: "matches ?u ?i = 4"
    by code_simp
  have f: "frac (100 * 4 / 9 :: rat) \<noteq> 1 / 2"
  proof -
    have "\<lfloor>100 * 4 / 9 :: rat\<rfloor> = 44"
      by (rule floor_unique) simp_all
    then show ?thesis
      by (simp add: frac_def)
  qed
  have s: "spec_score 4 9 = 44"
    by code_simp
  have e: "idealWords ''?!'' = []"
    by code_simp
  from n have ne: "idealWords ?i \<noteq> []"
    by auto
  show ?thesis
    using fallbackEvaluation_overlap [of ?i ?u] fallbackEvaluation_overlap [of "''?!''" "''gradient descent''"]
      n m f s e ne
    by simp
qed

text \<open>Claim C9 as amended, at the similarity -1 and at a fallback evaluation.\<close>

theorem score_range_witness:
  "(- 1 :: rat) \<le> - 1 \<and> (- 1 :: rat) \<le> 1
   \<and> (\<exists>k. score (similarity_feedback (Num (- 1))) = Num (of_int k) \<and> - 100 \<le> k \<and> k \<le> 100)
   \<and> (\<exists>k. score (fallbackEvaluation ''tree'' ''tree heap'') = Num (of_int k) \<and> 0 \<le> k \<and> k \<le> 100)"
  using score_range [where x = "- 1" and u = "''tree''" and i = "''tree heap''"]
  by simp

end
